theory Spec2Isabelle
  imports Complex_Main "HOL-Library.Signed_Division"
begin

section \<open>Go values and the standard-library functions the packages call\<close>

text \<open>
  A Go \<^verbatim>\<open>string\<close> is a sequence of bytes: \<^typ>\<open>string\<close>, whose characters are
  8-bit. Text outside ASCII appears as its UTF-8 bytes. Go's \<^verbatim>\<open>int\<close> (64 bits) and
  \<^verbatim>\<open>time.Duration\<close> (an \<^verbatim>\<open>int64\<close> count of nanoseconds) are \<^typ>\<open>int\<close>: the packages
  do no integer arithmetic on them, and the library functions that produce them check
  their range. \<^verbatim>\<open>float64\<close> is \<^typ>\<open>real\<close>: arithmetic is exact, there is no rounding,
  no infinity and no NaN. Unsigned 64-bit values inside the library functions are
  non-negative \<^typ>\<open>int\<close>s. A Go function returning \<^verbatim>\<open>(v, error)\<close> returns a pair whose
  second component is \<open>None\<close> for \<^verbatim>\<open>nil\<close>.
\<close>

type_synonym Duration = int

text \<open>
  Error values. \<open>errorString s\<close> is \<^verbatim>\<open>errors.New(s)\<close>. \<open>wrapError p e\<close> is
  \<^verbatim>\<open>fmt.Errorf(p + "%w", e)\<close>: its message is \<open>p\<close> followed by the message of \<open>e\<close>, and
  \<^verbatim>\<open>Unwrap\<close> gives back \<open>e\<close>. \<open>NumError f n e\<close> is \<^verbatim>\<open>&strconv.NumError{f, n, e}\<close>.
\<close>

datatype error =
    errorString string
  | wrapError string error
  | NumError string string error

fun Unwrap :: "error \<Rightarrow> error option" where
  "Unwrap (errorString s) = None"
| "Unwrap (wrapError p e) = Some e"
| "Unwrap (NumError f n e) = Some e"

definition ErrSyntax :: error where
  "ErrSyntax = errorString ''invalid syntax''"

definition ErrRange :: error where
  "ErrRange = errorString ''value out of range''"

definition syntaxError :: "string \<Rightarrow> string \<Rightarrow> error" where
  "syntaxError fn str = NumError fn str ErrSyntax"

definition rangeError :: "string \<Rightarrow> string \<Rightarrow> error" where
  "rangeError fn str = NumError fn str ErrRange"

text \<open>What \<^verbatim>\<open>log.Printf(format, err)\<close> hands to the logger: the format and the error.\<close>

datatype log_record = Printf string error

subsection \<open>strings.Split\<close>

text \<open>\<^verbatim>\<open>strings.Split(s, sep)\<close> for a separator of one byte: always at least one piece.\<close>

fun Split :: "string \<Rightarrow> char \<Rightarrow> string list" where
  "Split [] sep = [[]]"
| "Split (c # cs) sep =
     (if c = sep then [] # Split cs sep
      else (case Split cs sep of [] \<Rightarrow> [[c]] | p # ps \<Rightarrow> (c # p) # ps))"

subsection \<open>strconv.Atoi\<close>

definition is_digit :: "char \<Rightarrow> bool" where
  "is_digit c = (48 \<le> (of_char c :: int) \<and> (of_char c :: int) \<le> 57)"

definition digit_val :: "char \<Rightarrow> int" where
  "digit_val c = of_char c - 48"

definition maxUint64 :: int where
  "maxUint64 = 2 ^ 64 - 1"

text \<open>
  The digit loop of \<^verbatim>\<open>strconv.ParseUint(s, 10, 64)\<close>: a byte that is no decimal digit is
  a syntax error, a value beyond 64 bits a range error, whichever the scan meets first.
\<close>

fun ParseUint_loop :: "string \<Rightarrow> string \<Rightarrow> int \<Rightarrow> int \<times> error option" where
  "ParseUint_loop s0 [] n = (n, None)"
| "ParseUint_loop s0 (c # cs) n =
     (if \<not> is_digit c then (0, Some (syntaxError ''ParseUint'' s0))
      else if n \<ge> maxUint64 div 10 + 1 then (maxUint64, Some (rangeError ''ParseUint'' s0))
      else let n1 = n * 10 + digit_val c in
        if n1 > maxUint64 then (maxUint64, Some (rangeError ''ParseUint'' s0))
        else ParseUint_loop s0 cs n1)"

definition ParseUint :: "string \<Rightarrow> int \<times> error option" where
  "ParseUint s = (if s = [] then (0, Some (syntaxError ''ParseUint'' s)) else ParseUint_loop s s 0)"

text \<open>\<^verbatim>\<open>strconv.ParseInt(s, 10, 0)\<close> on a 64-bit platform.\<close>

definition ParseInt :: "string \<Rightarrow> int \<times> error option" where
  "ParseInt s0 =
     (if s0 = [] then (0, Some (syntaxError ''ParseInt'' s0))
      else
        let neg = (hd s0 = CHR ''-'');
            s = (if hd s0 = CHR ''+'' \<or> hd s0 = CHR ''-'' then tl s0 else s0)
        in (case ParseUint s of (un, err) \<Rightarrow>
          if (case err of Some (NumError f n e) \<Rightarrow> e \<noteq> ErrRange | _ \<Rightarrow> False)
            then (0, Some (syntaxError ''ParseInt'' s0))
          else if \<not> neg \<and> un \<ge> 2 ^ 63 then (2 ^ 63 - 1, Some (rangeError ''ParseInt'' s0))
          else if neg \<and> un > 2 ^ 63 then (- (2 ^ 63), Some (rangeError ''ParseInt'' s0))
          else (if neg then - un else un, None)))"

text \<open>The fast path of \<^verbatim>\<open>Atoi\<close>, taken by strings of 1 to 18 bytes.\<close>

fun Atoi_loop :: "string \<Rightarrow> string \<Rightarrow> int \<Rightarrow> int \<times> error option" where
  "Atoi_loop s0 [] n = (n, None)"
| "Atoi_loop s0 (ch # cs) n =
     (if \<not> is_digit ch then (0, Some (syntaxError ''Atoi'' s0))
      else Atoi_loop s0 cs (n * 10 + digit_val ch))"

definition Atoi :: "string \<Rightarrow> int \<times> error option" where
  "Atoi s0 =
     (if 0 < length s0 \<and> length s0 < 19 then
        (if (hd s0 = CHR ''-'' \<or> hd s0 = CHR ''+'') \<and> length (tl s0) < 1
           then (0, Some (syntaxError ''Atoi'' s0))
         else
           (case Atoi_loop s0 (if hd s0 = CHR ''-'' \<or> hd s0 = CHR ''+'' then tl s0 else s0) 0
            of (n, err) \<Rightarrow>
              (case err of Some e \<Rightarrow> (0, Some e)
               | None \<Rightarrow> (if hd s0 = CHR ''-'' then - n else n, None))))
      else
        (case ParseInt s0 of (i64, err) \<Rightarrow>
           (case err of Some (NumError f n e) \<Rightarrow> (i64, Some (NumError ''Atoi'' n e))
            | _ \<Rightarrow> (i64, err))))"

subsection \<open>time.Duration\<close>

definition Nanosecond :: Duration where "Nanosecond = 1"
definition Microsecond :: Duration where "Microsecond = 1000 * Nanosecond"
definition Millisecond :: Duration where "Millisecond = 1000 * Microsecond"
definition Second :: Duration where "Second = 1000 * Millisecond"
definition Minute :: Duration where "Minute = 60 * Second"
definition Hour :: Duration where "Hour = 60 * Minute"

text \<open>Go's integer \<^verbatim>\<open>/\<close> and \<^verbatim>\<open>%\<close> truncate towards zero: \<open>sdiv\<close> and \<open>smod\<close>.\<close>

definition Hours :: "Duration \<Rightarrow> real" where
  "Hours d =
     (let hour = d sdiv Hour; nsec = d smod Hour
      in real_of_int hour + real_of_int nsec / (60 * 60 * 1000000000))"

definition Minutes :: "Duration \<Rightarrow> real" where
  "Minutes d =
     (let min' = d sdiv Minute; nsec = d smod Minute
      in real_of_int min' + real_of_int nsec / (60 * 1000000000))"

subsection \<open>time.ParseDuration\<close>

text \<open>
  \<^verbatim>\<open>time.ParseDuration\<close> accepts \<^verbatim>\<open>[-+]?([0-9]*(\.[0-9]*)?[a-z]+)+\<close> and the string
  \<^verbatim>\<open>"0"\<close>. It computes in \<^verbatim>\<open>uint64\<close>; the one addition that its own checks do not keep
  below \<open>2^64\<close> is written with the wrap-around.
\<close>

definition lowerhex :: string where
  "lowerhex = ''0123456789abcdef''"

text \<open>\<^verbatim>\<open>quote\<close> of package time, byte by byte.\<close>

fun quote_bytes :: "string \<Rightarrow> string" where
  "quote_bytes [] = []"
| "quote_bytes (c # cs) =
     (if (of_char c :: nat) \<ge> 128 \<or> (of_char c :: nat) < 32
        then [CHR 0x5C, CHR ''x'', lowerhex ! (of_char c div 16), lowerhex ! (of_char c mod 16)]
      else if c = CHR 0x22 \<or> c = CHR 0x5C then [CHR 0x5C, c]
      else [c]) @ quote_bytes cs"

definition quote :: "string \<Rightarrow> string" where
  "quote s = CHR 0x22 # quote_bytes s @ [CHR 0x22]"

definition invalidDuration :: "string \<Rightarrow> error" where
  "invalidDuration orig = errorString (''time: invalid duration '' @ quote orig)"

text \<open>\<^verbatim>\<open>leadingInt\<close>: the leading digits, the rest of the string, and whether it overflowed.\<close>

fun leadingInt :: "string \<Rightarrow> int \<Rightarrow> int \<times> string \<times> bool" where
  "leadingInt [] x = (x, [], False)"
| "leadingInt (c # cs) x =
     (if \<not> is_digit c then (x, c # cs, False)
      else if x > 2 ^ 63 div 10 then (0, [], True)
      else let x' = x * 10 + digit_val c in
        if x' > 2 ^ 63 then (0, [], True) else leadingInt cs x')"

text \<open>
  \<^verbatim>\<open>leadingFraction\<close>: the digits after the point as an integer and its scale; digits
  beyond the capacity are consumed and dropped.
\<close>

fun leadingFraction :: "string \<Rightarrow> int \<Rightarrow> real \<Rightarrow> bool \<Rightarrow> int \<times> real \<times> string" where
  "leadingFraction [] x scale overflow = (x, scale, [])"
| "leadingFraction (c # cs) x scale overflow =
     (if \<not> is_digit c then (x, scale, c # cs)
      else if overflow then leadingFraction cs x scale overflow
      else if x > (2 ^ 63 - 1) div 10 then leadingFraction cs x scale True
      else let y = x * 10 + digit_val c in
        if y > 2 ^ 63 then leadingFraction cs x scale True
        else leadingFraction cs y (scale * 10) overflow)"

definition unitMap :: "string \<Rightarrow> int option" where
  "unitMap = map_of
     [(''ns'', Nanosecond),
      (''us'', Microsecond),
      ([CHR 0xC2, CHR 0xB5, CHR ''s''], Microsecond),
      ([CHR 0xCE, CHR 0xBC, CHR ''s''], Microsecond),
      (''ms'', Millisecond),
      (''s'', Second),
      (''m'', Minute),
      (''h'', Hour)]"

definition unit_byte :: "char \<Rightarrow> bool" where
  "unit_byte c = (\<not> (c = CHR ''.'' \<or> is_digit c))"

text \<open>
  The optional fraction \<^verbatim>\<open>(\.[0-9]*)?\<close> of one number: its digits, its scale, the rest
  of the string, and whether a digit followed the point.
\<close>

definition ParseDuration_fraction :: "string \<Rightarrow> int \<times> real \<times> string \<times> bool" where
  "ParseDuration_fraction s1 =
     (if s1 \<noteq> [] \<and> hd s1 = CHR ''.''
      then (case leadingFraction (tl s1) 0 1 False of
              (f, scale, s2) \<Rightarrow> (f, scale, s2, length (tl s1) \<noteq> length s2))
      else (0, 1, s1, False))"

text \<open>
  One round of the loop of \<^verbatim>\<open>ParseDuration\<close>, on a non-empty rest \<open>s\<close> with the sum \<open>d\<close>
  so far: an error, or the rest after one number and unit together with the new sum.
\<close>

definition ParseDuration_step :: "string \<Rightarrow> string \<Rightarrow> int \<Rightarrow> error + (string \<times> int)" where
  "ParseDuration_step orig s d =
     (if \<not> (hd s = CHR ''.'' \<or> is_digit (hd s)) then Inl (invalidDuration orig)
      else
        (case leadingInt s 0 of (v, s1, err) \<Rightarrow>
          if err then Inl (invalidDuration orig)
          else
            let pre = (length s \<noteq> length s1) in
            (case ParseDuration_fraction s1 of (f, scale, s2, post) \<Rightarrow>
               if \<not> pre \<and> \<not> post then Inl (invalidDuration orig)
               else
                 let u = takeWhile unit_byte s2; s3 = dropWhile unit_byte s2 in
                 if u = [] then
                   Inl (errorString (''time: missing unit in duration '' @ quote orig))
                 else
                   (case unitMap u of
                      None \<Rightarrow>
                        Inl (errorString (''time: unknown unit '' @ quote u
                              @ '' in duration '' @ quote orig))
                    | Some unit \<Rightarrow>
                        if v > 2 ^ 63 div unit then Inl (invalidDuration orig)
                        else
                          let v1 = v * unit;
                              v2 = (if f > 0
                                    then v1 + \<lfloor>real_of_int f * (real_of_int unit / scale)\<rfloor>
                                    else v1)
                          in
                            if f > 0 \<and> v2 > 2 ^ 63 then Inl (invalidDuration orig)
                            else
                              let d1 = (d + v2) mod 2 ^ 64 in
                              if d1 > 2 ^ 63 then Inl (invalidDuration orig)
                              else Inr (s3, d1)))))"

lemma leadingInt_length:
  "leadingInt s x = (v, r, e) \<Longrightarrow> length r \<le> length s"
proof (induction s arbitrary: x)
  case Nil
  then show ?case by simp
next
  case (Cons c cs)
  then show ?case
    by (fastforce simp: Let_def split: if_splits)
qed

lemma leadingFraction_length:
  "leadingFraction s x sc ov = (f, sc', r) \<Longrightarrow> length r \<le> length s"
proof (induction s arbitrary: x sc ov)
  case Nil
  then show ?case by simp
next
  case (Cons c cs)
  then show ?case
    by (fastforce simp: Let_def split: if_splits)
qed

lemma ParseDuration_fraction_length:
  assumes "ParseDuration_fraction s1 = (f, scale, s2, post)"
  shows "length s2 \<le> length s1"
proof (cases "s1 \<noteq> [] \<and> hd s1 = CHR ''.''")
  case True
  obtain f0 sc0 r0 where lf: "leadingFraction (tl s1) 0 1 False = (f0, sc0, r0)"
    by (cases "leadingFraction (tl s1) 0 1 False") auto
  with True assms have "s2 = r0"
    by (simp add: ParseDuration_fraction_def)
  moreover have "length r0 \<le> length (tl s1)"
    using lf by (rule leadingFraction_length)
  ultimately show ?thesis by simp
next
  case False
  with assms show ?thesis
    by (auto simp: ParseDuration_fraction_def)
qed

lemma ParseDuration_step_length:
  assumes "ParseDuration_step orig s d = Inr (s', d')"
  shows "length s' < length s"
proof -
  obtain v s1 err where li: "leadingInt s 0 = (v, s1, err)"
    by (cases "leadingInt s 0") auto
  obtain f scale s2 post where fr: "ParseDuration_fraction s1 = (f, scale, s2, post)"
    by (cases "ParseDuration_fraction s1") auto
  have s1: "length s1 \<le> length s"
    using li by (rule leadingInt_length)
  have s2: "length s2 \<le> length s1"
    using fr by (rule ParseDuration_fraction_length)
  have "takeWhile unit_byte s2 \<noteq> [] \<and> s' = dropWhile unit_byte s2"
    using assms li fr
    by (auto simp: ParseDuration_step_def Let_def split: if_splits option.splits)
  then have u: "takeWhile unit_byte s2 \<noteq> []" and s': "s' = dropWhile unit_byte s2"
    by simp_all
  have "length (takeWhile unit_byte s2) + length (dropWhile unit_byte s2) = length s2"
    by (metis length_append takeWhile_dropWhile_id)
  with u s' have "length s' < length s2"
    by (cases "takeWhile unit_byte s2") auto
  with s1 s2 show ?thesis by simp
qed

function ParseDuration_loop :: "string \<Rightarrow> string \<Rightarrow> int \<Rightarrow> int \<times> error option" where
  "ParseDuration_loop orig s d =
     (if s = [] then (d, None)
      else (case ParseDuration_step orig s d of
              Inl e \<Rightarrow> (0, Some e)
            | Inr (s', d') \<Rightarrow> ParseDuration_loop orig s' d'))"
  by pat_completeness auto
termination
  by (relation "measure (\<lambda>(orig, s, d). length s)") (auto dest: ParseDuration_step_length)

declare ParseDuration_loop.simps [simp del]

definition ParseDuration :: "string \<Rightarrow> Duration \<times> error option" where
  "ParseDuration orig =
     (let neg = (orig \<noteq> [] \<and> hd orig = CHR ''-'');
          s = (if orig \<noteq> [] \<and> (hd orig = CHR ''-'' \<or> hd orig = CHR ''+'') then tl orig else orig)
      in
        if s = ''0'' then (0, None)
        else if s = [] then (0, Some (invalidDuration orig))
        else
          (case ParseDuration_loop orig s 0 of (d, err) \<Rightarrow>
            (case err of
               Some e \<Rightarrow> (0, Some e)
             | None \<Rightarrow>
                 if neg then (- d, None)
                 else if d > 2 ^ 63 - 1 then (0, Some (invalidDuration orig))
                 else (d, None))))"

subsection \<open>fmt: the verbs \<^verbatim>\<open>%d\<close> and \<^verbatim>\<open>%.2f\<close>\<close>

definition digit_char :: "int \<Rightarrow> char" where
  "digit_char n = char_of (48 + n)"

text \<open>The decimal digits of a non-negative integer.\<close>

function digits :: "int \<Rightarrow> string" where
  "digits n = (if n < 10 then [digit_char n] else digits (n div 10) @ [digit_char (n mod 10)])"
  by pat_completeness auto
termination
  by (relation "measure nat") auto

declare digits.simps [simp del]

definition fmt_d :: "int \<Rightarrow> string" where
  "fmt_d n = (if n < 0 then CHR ''-'' # digits (- n) else digits n)"

text \<open>
  \<^verbatim>\<open>%.2f\<close> prints the value rounded to the nearest hundredth, a tie going to the even
  neighbour, with the sign of the value before it.
\<close>

definition round_half_even :: "real \<Rightarrow> int" where
  "round_half_even x =
     (let n = \<lfloor>x\<rfloor>; r = x - real_of_int n
      in if r < 1 / 2 then n else if r > 1 / 2 then n + 1 else if even n then n else n + 1)"

definition fmt_f2 :: "real \<Rightarrow> string" where
  "fmt_f2 x =
     (let n = round_half_even (\<bar>x\<bar> * 100)
      in (if x < 0 then ''-'' else []) @ digits (n div 100) @ ''.''
           @ [digit_char (n mod 100 div 10), digit_char (n mod 10)])"

section \<open>Package spentcalories: the metrics\<close>

definition lenStep :: real where "lenStep = 0.65"
definition mInKm :: real where "mInKm = 1000"
definition minInH :: real where "minInH = 60"
definition stepLengthCoefficient :: real where "stepLengthCoefficient = 0.45"
definition walkingCaloriesCoefficient :: real where "walkingCaloriesCoefficient = 0.5"

definition distance :: "int \<Rightarrow> real \<Rightarrow> real" where
  "distance steps height =
     (let length' = height * stepLengthCoefficient
      in real_of_int steps * length' / mInKm)"

definition meanSpeed :: "int \<Rightarrow> real \<Rightarrow> Duration \<Rightarrow> real" where
  "meanSpeed steps height duration =
     (if duration \<le> 0 then 0.0
      else let dist' = distance steps height in dist' / Hours duration)"

definition RunningSpentCalories :: "int \<Rightarrow> real \<Rightarrow> real \<Rightarrow> Duration \<Rightarrow> real \<times> error option" where
  "RunningSpentCalories steps weight height duration =
     (if steps \<le> 0 then (0.0, Some (errorString ''steps is not positive''))
      else if weight \<le> 0 then (0.0, Some (errorString ''weight is not positive''))
      else if duration \<le> 0 then (0.0, Some (errorString ''duration is not positive''))
      else let ms = meanSpeed steps height duration
        in ((weight * ms * Minutes duration) / minInH, None))"

definition WalkingSpentCalories :: "int \<Rightarrow> real \<Rightarrow> real \<Rightarrow> Duration \<Rightarrow> real \<times> error option" where
  "WalkingSpentCalories steps weight height duration =
     (if steps \<le> 0 then (0.0, Some (errorString ''steps is not positive''))
      else if weight \<le> 0 then (0.0, Some (errorString ''weight is not positive''))
      else if height \<le> 0 then (0.0, Some (errorString ''height is not positive''))
      else let ms = meanSpeed steps height duration;
               calories = weight * ms * Minutes duration;
               caloriesSpent = calories / minInH
        in (caloriesSpent * walkingCaloriesCoefficient, None))"

section \<open>Package spentcalories: parsing and the report\<close>

text \<open>
  \<^verbatim>\<open>parseTraining\<close> reads \<^verbatim>\<open>"3456,<activity>,3h00m"\<close>: steps, activity, duration. On
  every error it returns the zero values together with the error.
\<close>

definition parseTraining :: "string \<Rightarrow> int \<times> string \<times> Duration \<times> error option" where
  "parseTraining data =
     (let parts = Split data (CHR '','') in
      if length parts \<noteq> 3 then (0, [], 0, Some (errorString ''bad data format''))
      else
        (case Atoi (parts ! 0) of (steps, err) \<Rightarrow>
          (case err of
             Some e \<Rightarrow> (0, [], 0, Some (wrapError ''failed to extract steps: '' e))
           | None \<Rightarrow>
               if steps \<le> 0 then (0, [], 0, Some (errorString ''steps is not positive''))
               else
                 let activity = parts ! 1 in
                 (case ParseDuration (parts ! 2) of (d, err) \<Rightarrow>
                   (case err of
                      Some e \<Rightarrow> (0, [], 0, Some (wrapError ''failed to extract duration: '' e))
                    | None \<Rightarrow>
                        if d \<le> 0 then (0, [], 0, Some (errorString ''duration is not positive''))
                        else (steps, activity, d, None))))))"

text \<open>
  The two activity labels of the \<^verbatim>\<open>switch\<close>, in UTF-8: the Russian words for running
  (\<open>Beg\<close>) and for walking (\<open>Khodba\<close>), and the message of the \<^verbatim>\<open>default\<close> branch
  (in Russian, "unknown training type").
\<close>

definition Beg :: string where
  "Beg = [CHR 0xD0, CHR 0x91, CHR 0xD0, CHR 0xB5, CHR 0xD0, CHR 0xB3]"

definition Khodba :: string where
  "Khodba = [CHR 0xD0, CHR 0xA5, CHR 0xD0, CHR 0xBE, CHR 0xD0, CHR 0xB4, CHR 0xD1, CHR 0x8C,
     CHR 0xD0, CHR 0xB1, CHR 0xD0, CHR 0xB0]"

definition unknown_training_type :: string where
  "unknown_training_type =
     [CHR 0xD0, CHR 0xBD, CHR 0xD0, CHR 0xB5, CHR 0xD0, CHR 0xB8, CHR 0xD0, CHR 0xB7, CHR 0xD0,
      CHR 0xB2, CHR 0xD0, CHR 0xB5, CHR 0xD1, CHR 0x81, CHR 0xD1, CHR 0x82, CHR 0xD0, CHR 0xBD,
      CHR 0xD1, CHR 0x8B, CHR 0xD0, CHR 0xB9, CHR '' '', CHR 0xD1, CHR 0x82, CHR 0xD0, CHR 0xB8,
      CHR 0xD0, CHR 0xBF, CHR '' '', CHR 0xD1, CHR 0x82, CHR 0xD1, CHR 0x80, CHR 0xD0, CHR 0xB5,
      CHR 0xD0, CHR 0xBD, CHR 0xD0, CHR 0xB8, CHR 0xD1, CHR 0x80, CHR 0xD0, CHR 0xBE, CHR 0xD0,
      CHR 0xB2, CHR 0xD0, CHR 0xBA, CHR 0xD0, CHR 0xB8]"

text \<open>A label that is neither of the two: the Russian word for swimming, in UTF-8.\<close>

definition Plavanie :: string where
  "Plavanie = [CHR 0xD0, CHR 0x9F, CHR 0xD0, CHR 0xBB, CHR 0xD0, CHR 0xB0, CHR 0xD0, CHR 0xB2,
     CHR 0xD0, CHR 0xB0, CHR 0xD0, CHR 0xBD, CHR 0xD0, CHR 0xB8, CHR 0xD0, CHR 0xB5]"

text \<open>
  Records for the examples: \<^verbatim>\<open>"3456,<label>,3h00m"\<close> with the running, the walking and the
  swimming label, and \<^verbatim>\<open>"100,<running>,1h"\<close>.
\<close>

definition run_record :: string where
  "run_record = ''3456,'' @ Beg @ '',3h00m''"

definition walk_record :: string where
  "walk_record = ''3456,'' @ Khodba @ '',3h00m''"

definition swim_record :: string where
  "swim_record = ''3456,'' @ Plavanie @ '',3h00m''"

definition short_run_record :: string where
  "short_run_record = ''100,'' @ Beg @ '',1h''"

text \<open>
  \<^verbatim>\<open>fmt.Sprintf(text, activity, d.Hours(), dist, speed, calories)\<close> with the five-line
  template of \<^verbatim>\<open>TrainingInfo\<close> (\<^verbatim>\<open>%s\<close>, then four times \<^verbatim>\<open>%.2f\<close>): the literal pieces
  of the template, in UTF-8, around the formatted arguments.
\<close>

definition TrainingInfo_Sprintf :: "string \<Rightarrow> real \<Rightarrow> real \<Rightarrow> real \<Rightarrow> real \<Rightarrow> string" where
  "TrainingInfo_Sprintf activity hours dist' speed calories =
     [CHR 0xD0, CHR 0xA2, CHR 0xD0, CHR 0xB8, CHR 0xD0, CHR 0xBF, CHR '' '', CHR 0xD1, CHR 0x82,
      CHR 0xD1, CHR 0x80, CHR 0xD0, CHR 0xB5, CHR 0xD0, CHR 0xBD, CHR 0xD0, CHR 0xB8, CHR 0xD1,
      CHR 0x80, CHR 0xD0, CHR 0xBE, CHR 0xD0, CHR 0xB2, CHR 0xD0, CHR 0xBA, CHR 0xD0, CHR 0xB8,
      CHR '':'', CHR '' '']
     @ activity
     @ [CHR 0x0A, CHR 0xD0, CHR 0x94, CHR 0xD0, CHR 0xBB, CHR 0xD0, CHR 0xB8, CHR 0xD1, CHR 0x82,
        CHR 0xD0, CHR 0xB5, CHR 0xD0, CHR 0xBB, CHR 0xD1, CHR 0x8C, CHR 0xD0, CHR 0xBD, CHR 0xD0,
        CHR 0xBE, CHR 0xD1, CHR 0x81, CHR 0xD1, CHR 0x82, CHR 0xD1, CHR 0x8C, CHR '':'', CHR '' '']
     @ fmt_f2 hours
     @ [CHR '' '', CHR 0xD1, CHR 0x87, CHR ''.'', CHR 0x0A, CHR 0xD0, CHR 0x94, CHR 0xD0, CHR 0xB8,
        CHR 0xD1, CHR 0x81, CHR 0xD1, CHR 0x82, CHR 0xD0, CHR 0xB0, CHR 0xD0, CHR 0xBD, CHR 0xD1,
        CHR 0x86, CHR 0xD0, CHR 0xB8, CHR 0xD1, CHR 0x8F, CHR '':'', CHR '' '']
     @ fmt_f2 dist'
     @ [CHR '' '', CHR 0xD0, CHR 0xBA, CHR 0xD0, CHR 0xBC, CHR ''.'', CHR 0x0A, CHR 0xD0, CHR 0xA1,
        CHR 0xD0, CHR 0xBA, CHR 0xD0, CHR 0xBE, CHR 0xD1, CHR 0x80, CHR 0xD0, CHR 0xBE, CHR 0xD1,
        CHR 0x81, CHR 0xD1, CHR 0x82, CHR 0xD1, CHR 0x8C, CHR '':'', CHR '' '']
     @ fmt_f2 speed
     @ [CHR '' '', CHR 0xD0, CHR 0xBA, CHR 0xD0, CHR 0xBC, CHR ''/'', CHR 0xD1, CHR 0x87, CHR 0x0A,
        CHR 0xD0, CHR 0xA1, CHR 0xD0, CHR 0xBE, CHR 0xD0, CHR 0xB6, CHR 0xD0, CHR 0xB3, CHR 0xD0,
        CHR 0xBB, CHR 0xD0, CHR 0xB8, CHR '' '', CHR 0xD0, CHR 0xBA, CHR 0xD0, CHR 0xB0, CHR 0xD0,
        CHR 0xBB, CHR 0xD0, CHR 0xBE, CHR 0xD1, CHR 0x80, CHR 0xD0, CHR 0xB8, CHR 0xD0, CHR 0xB9,
        CHR '':'', CHR '' '']
     @ fmt_f2 calories
     @ [CHR 0x0A]"

text \<open>
  The statements of \<^verbatim>\<open>TrainingInfo\<close> after its \<^verbatim>\<open>switch\<close>: mean speed, distance and
  the formatted report, returned with a \<^verbatim>\<open>nil\<close> error.
\<close>

definition TrainingInfo_report :: "int \<Rightarrow> string \<Rightarrow> Duration \<Rightarrow> real \<Rightarrow> real \<Rightarrow> string \<times> error option" where
  "TrainingInfo_report steps activity d height calories =
     (let speed = meanSpeed steps height d;
          dist' = distance steps height
      in (TrainingInfo_Sprintf activity (Hours d) dist' speed calories, None))"

text \<open>
  \<^verbatim>\<open>TrainingInfo\<close>: parse, compute the calories of the activity, and format. Each of its
  error returns hands back the empty string and the error.
\<close>

definition TrainingInfo :: "string \<Rightarrow> real \<Rightarrow> real \<Rightarrow> string \<times> error option" where
  "TrainingInfo data weight height =
     (case parseTraining data of (steps, activity, d, err) \<Rightarrow>
       (case err of
          Some e \<Rightarrow> ([], Some (wrapError ''parseTraining: '' e))
        | None \<Rightarrow>
            if activity = Beg then
              (case RunningSpentCalories steps weight height d of (calories, err) \<Rightarrow>
                (case err of
                   Some e \<Rightarrow> ([], Some (wrapError ''RunningSpentCalories: '' e))
                 | None \<Rightarrow> TrainingInfo_report steps activity d height calories))
            else if activity = Khodba then
              (case WalkingSpentCalories steps weight height d of (calories, err) \<Rightarrow>
                (case err of
                   Some e \<Rightarrow> ([], Some (wrapError ''WalkingSpentCalories: '' e))
                 | None \<Rightarrow> TrainingInfo_report steps activity d height calories))
            else ([], Some (errorString unknown_training_type))))"

section \<open>Package daysteps\<close>

definition stepLength :: real where "stepLength = 0.65"
definition daysteps_mInKm :: real where "daysteps_mInKm = 1000"

text \<open>\<^verbatim>\<open>parsePackage\<close> reads \<^verbatim>\<open>"678,0h50m"\<close>: steps and duration.\<close>

definition parsePackage :: "string \<Rightarrow> int \<times> Duration \<times> error option" where
  "parsePackage data =
     (let parts = Split data (CHR '','') in
      if length parts \<noteq> 2 then (0, 0, Some (errorString ''bad data format''))
      else
        (case Atoi (parts ! 0) of (steps, err) \<Rightarrow>
          (case err of
             Some e \<Rightarrow> (0, 0, Some (wrapError ''failed to extract steps: '' e))
           | None \<Rightarrow>
               if steps \<le> 0 then (0, 0, Some (errorString ''steps must be positive''))
               else
                 (case ParseDuration (parts ! 1) of (d, err) \<Rightarrow>
                   (case err of
                      Some e \<Rightarrow> (0, 0, Some (wrapError ''failed to extract duration: '' e))
                    | None \<Rightarrow>
                        if d \<le> 0 then (0, 0, Some (errorString ''duration is not positive''))
                        else (steps, d, None))))))"

text \<open>
  \<^verbatim>\<open>fmt.Sprintf\<close> with the three-line template of \<^verbatim>\<open>DayActionInfo\<close> (\<^verbatim>\<open>%d\<close>, then twice
  \<^verbatim>\<open>%.2f\<close>): step count, distance in km, calories.
\<close>

definition DayActionInfo_Sprintf :: "int \<Rightarrow> real \<Rightarrow> real \<Rightarrow> string" where
  "DayActionInfo_Sprintf steps kilometers calories =
     [CHR 0xD0, CHR 0x9A, CHR 0xD0, CHR 0xBE, CHR 0xD0, CHR 0xBB, CHR 0xD0, CHR 0xB8, CHR 0xD1,
      CHR 0x87, CHR 0xD0, CHR 0xB5, CHR 0xD1, CHR 0x81, CHR 0xD1, CHR 0x82, CHR 0xD0, CHR 0xB2,
      CHR 0xD0, CHR 0xBE, CHR '' '', CHR 0xD1, CHR 0x88, CHR 0xD0, CHR 0xB0, CHR 0xD0, CHR 0xB3,
      CHR 0xD0, CHR 0xBE, CHR 0xD0, CHR 0xB2, CHR '':'', CHR '' '']
     @ fmt_d steps
     @ [CHR ''.'', CHR 0x0A, CHR 0xD0, CHR 0x94, CHR 0xD0, CHR 0xB8, CHR 0xD1, CHR 0x81, CHR 0xD1,
        CHR 0x82, CHR 0xD0, CHR 0xB0, CHR 0xD0, CHR 0xBD, CHR 0xD1, CHR 0x86, CHR 0xD0, CHR 0xB8,
        CHR 0xD1, CHR 0x8F, CHR '' '', CHR 0xD1, CHR 0x81, CHR 0xD0, CHR 0xBE, CHR 0xD1, CHR 0x81,
        CHR 0xD1, CHR 0x82, CHR 0xD0, CHR 0xB0, CHR 0xD0, CHR 0xB2, CHR 0xD0, CHR 0xB8, CHR 0xD0,
        CHR 0xBB, CHR 0xD0, CHR 0xB0, CHR '' '']
     @ fmt_f2 kilometers
     @ [CHR '' '', CHR 0xD0, CHR 0xBA, CHR 0xD0, CHR 0xBC, CHR ''.'', CHR 0x0A, CHR 0xD0, CHR 0x92,
        CHR 0xD1, CHR 0x8B, CHR '' '', CHR 0xD1, CHR 0x81, CHR 0xD0, CHR 0xBE, CHR 0xD0, CHR 0xB6,
        CHR 0xD0, CHR 0xB3, CHR 0xD0, CHR 0xBB, CHR 0xD0, CHR 0xB8, CHR '' '']
     @ fmt_f2 calories
     @ [CHR '' '', CHR 0xD0, CHR 0xBA, CHR 0xD0, CHR 0xBA, CHR 0xD0, CHR 0xB0, CHR 0xD0, CHR 0xBB,
        CHR ''.'', CHR 0x0A]"

text \<open>
  \<^verbatim>\<open>DayActionInfo\<close> returns a string only. It writes to the standard logger: the model
  takes the records logged so far and returns them with those of this call appended.
\<close>

definition DayActionInfo :: "string \<Rightarrow> real \<Rightarrow> real \<Rightarrow> log_record list \<Rightarrow> string \<times> log_record list" where
  "DayActionInfo data weight height lg =
     (case parsePackage data of (steps, d, err) \<Rightarrow>
       (case err of
          Some e \<Rightarrow> ([], lg @ [Printf ''parsePackage: %v'' e])
        | None \<Rightarrow>
            if steps \<le> 0 then ([], lg)
            else
              let meters = real_of_int steps * stepLength;
                  kilometers = meters / daysteps_mInKm
              in
                (case WalkingSpentCalories steps weight height d of (calories, err) \<Rightarrow>
                  (case err of
                     Some e \<Rightarrow> ([], lg @ [Printf ''WalkingSpentCalories: %v'' e])
                   | None \<Rightarrow> (DayActionInfo_Sprintf steps kilometers calories, lg)))))"

section \<open>Properties of the library model\<close>

lemma Hours_eq: "Hours d = real_of_int d / 3600000000000"
proof -
  have "d sdiv Hour * Hour + d smod Hour = d"
    by (rule sdiv_mult_smod_eq)
  then have "real_of_int (d sdiv Hour) * real_of_int Hour + real_of_int (d smod Hour) = real_of_int d"
    by (metis of_int_add of_int_mult)
  moreover have "real_of_int Hour = 3600000000000"
    by (simp add: Hour_def Minute_def Second_def Millisecond_def Microsecond_def Nanosecond_def)
  ultimately show ?thesis
    by (simp add: Hours_def Let_def field_simps)
qed

lemma Minutes_eq: "Minutes d = real_of_int d / 60000000000"
proof -
  have "d sdiv Minute * Minute + d smod Minute = d"
    by (rule sdiv_mult_smod_eq)
  then have "real_of_int (d sdiv Minute) * real_of_int Minute + real_of_int (d smod Minute) = real_of_int d"
    by (metis of_int_add of_int_mult)
  moreover have "real_of_int Minute = 60000000000"
    by (simp add: Minute_def Second_def Millisecond_def Microsecond_def Nanosecond_def)
  ultimately show ?thesis
    by (simp add: Minutes_def Let_def field_simps)
qed

lemma Hours_pos: "0 < d \<Longrightarrow> 0 < Hours d"
  by (simp add: Hours_eq)

section \<open>Properties of the metrics\<close>

lemma distance_eq: "distance steps height = real_of_int steps * (height * 0.45) / 1000"
  by (simp add: distance_def stepLengthCoefficient_def mInKm_def)

text \<open>
  C7. For every step count, height and duration, \<open>meanSpeed\<close> is exactly 0 when the
  duration is at most 0; otherwise it is the distance \<open>steps * (height * 0.45) / 1000\<close>
  divided by the duration in hours (the nanosecond count over \<open>3.6 * 10^12\<close>).
\<close>

theorem meanSpeed_spec:
  "meanSpeed steps height duration =
     (if duration \<le> 0 then 0
      else distance steps height / (real_of_int duration / 3600000000000))"
  by (simp add: meanSpeed_def Hours_eq)

theorem meanSpeed_spec_witness:
  "meanSpeed 1000 1.75 0 = 0 \<and> meanSpeed 1000 1.75 (- 5) = 0
   \<and> meanSpeed 1000 1.75 600000000000 = distance 1000 1.75 / (1 / 6)
   \<and> meanSpeed 1000 1.75 600000000000 = 4.725"
  using meanSpeed_spec [of 1000 "1.75" 0] meanSpeed_spec [of 1000 "1.75" "- 5"]
    meanSpeed_spec [of 1000 "1.75" 600000000000]
  by (simp add: distance_eq)



text \<open>
  C9. For 1000 steps, 70 kg, 1.75 m and ten minutes, the distance is 0.7875 km, the mean
  speed 4.725 km/h, and the walking calories are 27.5625 kcal, returned without error.
\<close>

theorem walking_example:
  "distance 1000 1.75 = 0.7875
   \<and> meanSpeed 1000 1.75 (10 * Minute) = 4.725
   \<and> WalkingSpentCalories 1000 70 1.75 (10 * Minute) = (27.5625, None)"
  by (simp add: WalkingSpentCalories_def meanSpeed_def distance_eq Hours_eq Minutes_eq
      Let_def minInH_def walkingCaloriesCoefficient_def
      Minute_def Second_def Millisecond_def Microsecond_def Nanosecond_def)

text \<open>
  C10. For positive steps, weight and height and a duration that is at most 0,
  \<open>WalkingSpentCalories\<close> returns 0 calories and no error.
\<close>

theorem walking_nonpositive_duration:
  assumes "0 < steps" and "0 < weight" and "0 < height" and "duration \<le> 0"
  shows "WalkingSpentCalories steps weight height duration = (0, None)"
  using assms
  by (simp add: WalkingSpentCalories_def meanSpeed_def Let_def)

theorem walking_nonpositive_duration_witness:
  "WalkingSpentCalories 1000 70 1.75 0 = (0, None)
   \<and> WalkingSpentCalories 1000 70 1.75 (- (10 * Minute)) = (0, None)"
  using walking_nonpositive_duration [of 1000 70 "1.75" 0]
    walking_nonpositive_duration [of 1000 70 "1.75" "- (10 * Minute)"]
  by (simp add: Minute_def Second_def Millisecond_def Microsecond_def Nanosecond_def)

section \<open>Properties of the parsers\<close>

lemma parseTraining_None:
  assumes "parseTraining data = (steps, activity, d, None)"
  shows "length (Split data (CHR '','')) = 3
    \<and> Atoi (Split data (CHR '','') ! 0) = (steps, None)
    \<and> activity = Split data (CHR '','') ! 1
    \<and> ParseDuration (Split data (CHR '','') ! 2) = (d, None)
    \<and> 0 < steps \<and> 0 < d"
  using assms
  by (auto simp: parseTraining_def Let_def split: if_splits prod.splits option.splits)

lemma parseTraining_Some:
  assumes "parseTraining data = (steps, activity, d, Some e)"
  shows "steps = 0 \<and> activity = [] \<and> d = 0"
  using assms
  by (auto simp: parseTraining_def Let_def split: if_splits prod.splits option.splits)

lemma parsePackage_None:
  assumes "parsePackage data = (steps, d, None)"
  shows "length (Split data (CHR '','')) = 2
    \<and> Atoi (Split data (CHR '','') ! 0) = (steps, None)
    \<and> ParseDuration (Split data (CHR '','') ! 1) = (d, None)
    \<and> 0 < steps \<and> 0 < d"
  using assms
  by (auto simp: parsePackage_def Let_def split: if_splits prod.splits option.splits)

lemma parsePackage_Some:
  assumes "parsePackage data = (steps, d, Some e)"
  shows "steps = 0 \<and> d = 0"
  using assms
  by (auto simp: parsePackage_def Let_def split: if_splits prod.splits option.splits)






section \<open>Properties of TrainingInfo\<close>

lemma Beg_neq_Khodba: "Beg \<noteq> Khodba"
  by (simp add: Beg_def Khodba_def)

lemma TrainingInfo_Sprintf_nonempty:
  "TrainingInfo_Sprintf activity hours dist' speed calories \<noteq> []"
  by (simp add: TrainingInfo_Sprintf_def)

lemma TrainingInfo_report_eq:
  "TrainingInfo_report steps activity d height calories =
     (TrainingInfo_Sprintf activity (Hours d) (distance steps height)
        (meanSpeed steps height d) calories, None)"
  by (simp add: TrainingInfo_report_def)

lemma TrainingInfo_parse_error:
  assumes "parseTraining data = (steps, activity, d, Some e)"
  shows "TrainingInfo data weight height = ([], Some (wrapError ''parseTraining: '' e))"
  using assms by (simp add: TrainingInfo_def)

lemma TrainingInfo_running:
  assumes "parseTraining data = (steps, Beg, d, None)"
  shows "TrainingInfo data weight height =
     (case RunningSpentCalories steps weight height d of
        (calories, None) \<Rightarrow>
          (TrainingInfo_Sprintf Beg (Hours d) (distance steps height)
             (meanSpeed steps height d) calories, None)
      | (calories, Some e) \<Rightarrow> ([], Some (wrapError ''RunningSpentCalories: '' e)))"
  using assms
  by (simp add: TrainingInfo_def TrainingInfo_report_eq split: prod.splits option.splits)

lemma TrainingInfo_walking:
  assumes "parseTraining data = (steps, Khodba, d, None)"
  shows "TrainingInfo data weight height =
     (case WalkingSpentCalories steps weight height d of
        (calories, None) \<Rightarrow>
          (TrainingInfo_Sprintf Khodba (Hours d) (distance steps height)
             (meanSpeed steps height d) calories, None)
      | (calories, Some e) \<Rightarrow> ([], Some (wrapError ''WalkingSpentCalories: '' e)))"
  using assms Beg_neq_Khodba
  by (simp add: TrainingInfo_def TrainingInfo_report_eq split: prod.splits option.splits)

lemma TrainingInfo_unknown:
  assumes "parseTraining data = (steps, activity, d, None)"
    and "activity \<noteq> Beg" and "activity \<noteq> Khodba"
  shows "TrainingInfo data weight height = ([], Some (errorString unknown_training_type))"
  using assms by (simp add: TrainingInfo_def)

text \<open>
  C5. After a record of three fields has been parsed, \<open>TrainingInfo\<close> goes by the
  activity label: the running label gives the result of \<open>RunningSpentCalories\<close>, the
  walking label that of \<open>WalkingSpentCalories\<close> (the report with those calories, or the
  function's error), and every other label makes the call fail with the
  unknown-training-type error.
\<close>

theorem TrainingInfo_dispatch:
  assumes "parseTraining data = (steps, activity, d, None)"
  shows "(activity = Beg \<longrightarrow>
            TrainingInfo data weight height =
              (case RunningSpentCalories steps weight height d of
                 (calories, None) \<Rightarrow>
                   (TrainingInfo_Sprintf activity (Hours d) (distance steps height)
                      (meanSpeed steps height d) calories, None)
               | (calories, Some e) \<Rightarrow> ([], Some (wrapError ''RunningSpentCalories: '' e))))
    \<and> (activity = Khodba \<longrightarrow>
            TrainingInfo data weight height =
              (case WalkingSpentCalories steps weight height d of
                 (calories, None) \<Rightarrow>
                   (TrainingInfo_Sprintf activity (Hours d) (distance steps height)
                      (meanSpeed steps height d) calories, None)
               | (calories, Some e) \<Rightarrow> ([], Some (wrapError ''WalkingSpentCalories: '' e))))
    \<and> (activity \<noteq> Beg \<and> activity \<noteq> Khodba \<longrightarrow>
            TrainingInfo data weight height = ([], Some (errorString unknown_training_type)))"
proof (intro conjI impI)
  assume a: "activity = Beg"
  show "TrainingInfo data weight height =
      (case RunningSpentCalories steps weight height d of
         (calories, None) \<Rightarrow>
           (TrainingInfo_Sprintf activity (Hours d) (distance steps height)
              (meanSpeed steps height d) calories, None)
       | (calories, Some e) \<Rightarrow> ([], Some (wrapError ''RunningSpentCalories: '' e)))"
    unfolding a by (rule TrainingInfo_running [OF assms [unfolded a]])
next
  assume a: "activity = Khodba"
  show "TrainingInfo data weight height =
      (case WalkingSpentCalories steps weight height d of
         (calories, None) \<Rightarrow>
           (TrainingInfo_Sprintf activity (Hours d) (distance steps height)
              (meanSpeed steps height d) calories, None)
       | (calories, Some e) \<Rightarrow> ([], Some (wrapError ''WalkingSpentCalories: '' e)))"
    unfolding a by (rule TrainingInfo_walking [OF assms [unfolded a]])
next
  assume "activity \<noteq> Beg \<and> activity \<noteq> Khodba"
  with assms show "TrainingInfo data weight height = ([], Some (errorString unknown_training_type))"
    by (simp add: TrainingInfo_unknown)
qed

text \<open>
  C3, as the code has it. Whenever \<open>TrainingInfo\<close> returns an error, the string it
  returns is empty. If \<open>parseTraining\<close>, \<open>RunningSpentCalories\<close> or
  \<open>WalkingSpentCalories\<close> failed, the error wraps the error of that function under the
  function's name. If the activity label is neither of the two known ones, the error is
  the plain unknown-training-type error: it carries no stage name and wraps nothing.
\<close>

theorem TrainingInfo_failure:
  assumes "snd (TrainingInfo data weight height) \<noteq> None"
  shows "fst (TrainingInfo data weight height) = []
    \<and> (case parseTraining data of
         (steps, activity, d, Some e) \<Rightarrow>
           snd (TrainingInfo data weight height) = Some (wrapError ''parseTraining: '' e)
       | (steps, activity, d, None) \<Rightarrow>
           if activity = Beg then
             (\<exists>e. snd (RunningSpentCalories steps weight height d) = Some e
                \<and> snd (TrainingInfo data weight height)
                    = Some (wrapError ''RunningSpentCalories: '' e))
           else if activity = Khodba then
             (\<exists>e. snd (WalkingSpentCalories steps weight height d) = Some e
                \<and> snd (TrainingInfo data weight height)
                    = Some (wrapError ''WalkingSpentCalories: '' e))
           else snd (TrainingInfo data weight height)
                  = Some (errorString unknown_training_type))"
proof -
  obtain steps activity d err where p: "parseTraining data = (steps, activity, d, err)"
    by (cases "parseTraining data") auto
  show ?thesis
  proof (cases err)
    case (Some e)
    with p show ?thesis
      by (simp add: TrainingInfo_parse_error)
  next
    case None
    note p' = p [unfolded None]
    consider (run) "activity = Beg" | (walk) "activity = Khodba"
      | (other) "activity \<noteq> Beg" "activity \<noteq> Khodba"
      by blast
    then show ?thesis
    proof cases
      case run
      with assms p' show ?thesis
        using TrainingInfo_running [of data steps d weight height]
        by (auto simp: TrainingInfo_Sprintf_nonempty split: prod.splits option.splits)
    next
      case walk
      with assms p' show ?thesis
        using TrainingInfo_walking [of data steps d weight height] Beg_neq_Khodba
        by (auto simp: TrainingInfo_Sprintf_nonempty split: prod.splits option.splits)
    next
      case other
      with p' show ?thesis
        by (simp add: TrainingInfo_unknown)
    qed
  qed
qed

text \<open>
  Where the derived values of a report are non-negative: with a height that is not
  negative, every successful call formats a distance, a mean speed and calories that
  are at least 0.
\<close>

lemma distance_nonneg: "0 \<le> steps \<Longrightarrow> 0 \<le> height \<Longrightarrow> 0 \<le> distance steps height"
  by (simp add: distance_eq)

lemma meanSpeed_nonneg: "0 \<le> steps \<Longrightarrow> 0 \<le> height \<Longrightarrow> 0 \<le> meanSpeed steps height d"
  by (simp add: meanSpeed_def Hours_eq distance_nonneg)

lemma RunningSpentCalories_nonneg:
  assumes "RunningSpentCalories steps weight height d = (calories, None)" and "0 \<le> height"
  shows "0 \<le> calories"
proof -
  from assms(1) have s: "0 < steps" and w: "0 < weight" and d: "0 < d"
    and c: "calories = weight * meanSpeed steps height d * Minutes d / minInH"
    by (auto simp: RunningSpentCalories_def Let_def split: if_splits)
  have "0 \<le> meanSpeed steps height d"
    using s assms(2) by (simp add: meanSpeed_nonneg)
  moreover have "0 \<le> Minutes d"
    using d by (simp add: Minutes_eq)
  ultimately show ?thesis
    using w by (simp add: c minInH_def)
qed

lemma WalkingSpentCalories_nonneg:
  assumes "WalkingSpentCalories steps weight height d = (calories, None)" and "0 \<le> d"
  shows "0 \<le> calories"
proof -
  from assms(1) have s: "0 < steps" and w: "0 < weight" and h: "0 < height"
    and c: "calories = weight * meanSpeed steps height d * Minutes d / minInH
              * walkingCaloriesCoefficient"
    by (auto simp: WalkingSpentCalories_def Let_def split: if_splits)
  have "0 \<le> meanSpeed steps height d"
    using s h by (simp add: meanSpeed_nonneg)
  moreover have "0 \<le> Minutes d"
    using assms(2) by (simp add: Minutes_eq)
  ultimately show ?thesis
    using w by (simp add: c minInH_def walkingCaloriesCoefficient_def)
qed

lemma TrainingInfo_metrics_nonneg:
  assumes p: "parseTraining data = (steps, activity, d, None)"
    and ok: "snd (TrainingInfo data weight height) = None"
    and h: "0 \<le> height"
  shows "\<exists>calories.
      TrainingInfo data weight height =
        (TrainingInfo_Sprintf activity (Hours d) (distance steps height)
           (meanSpeed steps height d) calories, None)
      \<and> 0 \<le> distance steps height \<and> 0 \<le> meanSpeed steps height d \<and> 0 \<le> calories"
proof -
  from p have s: "0 < steps" and d: "0 < d"
    using parseTraining_None by blast+
  have dm: "0 \<le> distance steps height \<and> 0 \<le> meanSpeed steps height d"
    using s h by (simp add: distance_nonneg meanSpeed_nonneg)
  consider (run) "activity = Beg" | (walk) "activity = Khodba"
    | (other) "activity \<noteq> Beg" "activity \<noteq> Khodba"
    by blast
  then show ?thesis
  proof cases
    case run
    obtain c e where r: "RunningSpentCalories steps weight height d = (c, e)"
      by (cases "RunningSpentCalories steps weight height d") auto
    from ok have "e = None"
      unfolding TrainingInfo_running [OF p [unfolded run]] r
      by (cases e) simp_all
    with r h have "0 \<le> c"
      using RunningSpentCalories_nonneg by blast
    with dm \<open>e = None\<close> show ?thesis
      unfolding run TrainingInfo_running [OF p [unfolded run]] r by auto
  next
    case walk
    obtain c e where w: "WalkingSpentCalories steps weight height d = (c, e)"
      by (cases "WalkingSpentCalories steps weight height d") auto
    from ok have "e = None"
      unfolding TrainingInfo_walking [OF p [unfolded walk]] w
      by (cases e) simp_all
    with w d have "0 \<le> c"
      using WalkingSpentCalories_nonneg [of steps weight height d c] by simp
    with dm \<open>e = None\<close> show ?thesis
      unfolding walk TrainingInfo_walking [OF p [unfolded walk]] w by auto
  next
    case other
    with p ok show ?thesis
      by (simp add: TrainingInfo_unknown)
  qed
qed

section \<open>Properties of DayActionInfo\<close>

lemma DayActionInfo_Sprintf_nonempty:
  "DayActionInfo_Sprintf steps kilometers calories \<noteq> []"
  by (simp add: DayActionInfo_Sprintf_def)

lemma DayActionInfo_parse_error:
  assumes "parsePackage data = (steps, d, Some e)"
  shows "DayActionInfo data weight height lg = ([], lg @ [Printf ''parsePackage: %v'' e])"
  using assms by (simp add: DayActionInfo_def)

lemma DayActionInfo_parsed:
  assumes "parsePackage data = (steps, d, None)"
  shows "DayActionInfo data weight height lg =
     (case WalkingSpentCalories steps weight height d of
        (calories, None) \<Rightarrow>
          (DayActionInfo_Sprintf steps (real_of_int steps * 0.65 / 1000) calories, lg)
      | (calories, Some e) \<Rightarrow> ([], lg @ [Printf ''WalkingSpentCalories: %v'' e]))"
proof -
  from assms have "0 < steps"
    using parsePackage_None by blast
  with assms show ?thesis
    by (simp add: DayActionInfo_def Let_def stepLength_def daysteps_mInKm_def
        split: prod.splits option.splits)
qed

text \<open>
  C6. When \<open>parsePackage\<close> fails, or the record is parsed and \<open>WalkingSpentCalories\<close>
  fails, \<open>DayActionInfo\<close> returns the empty string, and all it does with the error is to
  append one record for it to the log. Its result has no error component.
\<close>

theorem DayActionInfo_failure:
  "(parsePackage data = (steps, d, Some e) \<longrightarrow>
      DayActionInfo data weight height lg = ([], lg @ [Printf ''parsePackage: %v'' e]))
   \<and> (parsePackage data = (steps, d, None)
        \<and> WalkingSpentCalories steps weight height d = (calories, Some e) \<longrightarrow>
      DayActionInfo data weight height lg = ([], lg @ [Printf ''WalkingSpentCalories: %v'' e]))"
  by (simp add: DayActionInfo_parse_error DayActionInfo_parsed)

text \<open>
  C1, as the code has it. Whenever \<open>DayActionInfo\<close> returns a report (a non-empty
  string), the record was parsed, the walking calories were computed without error, and
  the distance in the report is \<open>steps * 0.65 / 1000\<close> km: a fixed step of 0.65 m,
  whatever the height.
\<close>

theorem DayActionInfo_distance:
  assumes "fst (DayActionInfo data weight height lg) \<noteq> []"
  shows "snd (snd (parsePackage data)) = None
    \<and> snd (WalkingSpentCalories (fst (parsePackage data)) weight height
              (fst (snd (parsePackage data)))) = None
    \<and> fst (DayActionInfo data weight height lg) =
        DayActionInfo_Sprintf (fst (parsePackage data))
          (real_of_int (fst (parsePackage data)) * 0.65 / 1000)
          (fst (WalkingSpentCalories (fst (parsePackage data)) weight height
                  (fst (snd (parsePackage data)))))"
proof -
  obtain steps d err where p: "parsePackage data = (steps, d, err)"
    by (cases "parsePackage data") auto
  show ?thesis
  proof (cases err)
    case (Some e)
    with p assms show ?thesis
      by (simp add: DayActionInfo_parse_error)
  next
    case None
    with p assms show ?thesis
      using DayActionInfo_parsed [of data steps d weight height lg]
      by (auto split: prod.splits option.splits)
  qed
qed

section \<open>The properties at concrete inputs\<close>










lemma parseTraining_run:
  "parseTraining run_record = (3456, Beg, 10800000000000, None)"
  by code_simp

lemma parseTraining_walk:
  "parseTraining walk_record = (3456, Khodba, 10800000000000, None)"
  by code_simp

lemma parseTraining_swim:
  "parseTraining swim_record = (3456, Plavanie, 10800000000000, None)"
  by code_simp

lemma parseTraining_x:
  "parseTraining ''x,run,3h00m'' =
     (0, [], 0, Some (wrapError ''failed to extract steps: '' (NumError ''Atoi'' ''x'' ErrSyntax)))"
  by code_simp

lemma parsePackage_678: "parsePackage ''678,0h50m'' = (678, 3000000000000, None)"
  by code_simp

lemma parsePackage_1000: "parsePackage ''1000,1h'' = (1000, 3600000000000, None)"
  by code_simp

lemma parsePackage_one_field:
  "parsePackage ''678'' = (0, 0, Some (errorString ''bad data format''))"
  by code_simp

lemma Plavanie_neq: "Plavanie \<noteq> Beg \<and> Plavanie \<noteq> Khodba"
  by (simp add: Plavanie_def Beg_def Khodba_def)


theorem TrainingInfo_dispatch_witness:
  "parseTraining run_record = (3456, Beg, 10800000000000, None)
   \<and> TrainingInfo run_record 75 1.8
       = (TrainingInfo_Sprintf Beg 3 2.79936 0.93312 209.952, None)
   \<and> parseTraining walk_record = (3456, Khodba, 10800000000000, None)
   \<and> TrainingInfo walk_record 75 1.8
       = (TrainingInfo_Sprintf Khodba 3 2.79936 0.93312 104.976, None)
   \<and> parseTraining swim_record = (3456, Plavanie, 10800000000000, None)
   \<and> TrainingInfo swim_record 75 1.8
       = ([], Some (errorString unknown_training_type))"
proof -
  have r: "RunningSpentCalories 3456 75 1.8 10800000000000 = (209.952, None)"
    by (simp add: RunningSpentCalories_def meanSpeed_def distance_eq Hours_eq Minutes_eq
        minInH_def)
  have w: "WalkingSpentCalories 3456 75 1.8 10800000000000 = (104.976, None)"
    by (simp add: WalkingSpentCalories_def meanSpeed_def distance_eq Hours_eq Minutes_eq
        minInH_def walkingCaloriesCoefficient_def)
  have m: "meanSpeed 3456 1.8 10800000000000 = 0.93312"
    and d: "distance 3456 1.8 = 2.79936" and h: "Hours 10800000000000 = 3"
    by (simp_all add: meanSpeed_def distance_eq Hours_eq)
  have "TrainingInfo run_record 75 1.8 =
      (case RunningSpentCalories 3456 75 1.8 10800000000000 of
         (calories, None) \<Rightarrow>
           (TrainingInfo_Sprintf Beg (Hours 10800000000000) (distance 3456 1.8)
              (meanSpeed 3456 1.8 10800000000000) calories, None)
       | (calories, Some e) \<Rightarrow> ([], Some (wrapError ''RunningSpentCalories: '' e)))"
    using TrainingInfo_dispatch [OF parseTraining_run, of 75 "1.8"] by blast
  then have run: "TrainingInfo run_record 75 1.8
      = (TrainingInfo_Sprintf Beg 3 2.79936 0.93312 209.952, None)"
    unfolding r m d h by simp
  have "TrainingInfo walk_record 75 1.8 =
      (case WalkingSpentCalories 3456 75 1.8 10800000000000 of
         (calories, None) \<Rightarrow>
           (TrainingInfo_Sprintf Khodba (Hours 10800000000000) (distance 3456 1.8)
              (meanSpeed 3456 1.8 10800000000000) calories, None)
       | (calories, Some e) \<Rightarrow> ([], Some (wrapError ''WalkingSpentCalories: '' e)))"
    using TrainingInfo_dispatch [OF parseTraining_walk, of 75 "1.8"] by blast
  then have walk: "TrainingInfo walk_record 75 1.8
      = (TrainingInfo_Sprintf Khodba 3 2.79936 0.93312 104.976, None)"
    unfolding w m d h by simp
  have swim: "TrainingInfo swim_record 75 1.8 = ([], Some (errorString unknown_training_type))"
    using TrainingInfo_dispatch [OF parseTraining_swim, of 75 "1.8"] Plavanie_neq by blast
  show ?thesis
    using run walk swim parseTraining_run parseTraining_walk parseTraining_swim by simp
qed

text \<open>
  C3 as stated fails where the activity label is unknown: for the record with the
  swimming label, \<open>TrainingInfo\<close> returns the plain unknown-training-type error, from
  which \<open>Unwrap\<close> gives nothing.
\<close>

theorem TrainingInfo_unwrapped_counterexample:
  "TrainingInfo swim_record 75 1.8
     = ([], Some (errorString unknown_training_type))
   \<and> Unwrap (errorString unknown_training_type) = None"
  using parseTraining_swim Plavanie_neq
  by (simp add: TrainingInfo_unknown)

theorem TrainingInfo_failure_witness:
  "snd (TrainingInfo swim_record 75 1.8) \<noteq> None
   \<and> TrainingInfo swim_record 75 1.8
       = ([], Some (errorString unknown_training_type))
   \<and> snd (TrainingInfo ''x,run,3h00m'' 75 1.8) \<noteq> None
   \<and> TrainingInfo ''x,run,3h00m'' 75 1.8
       = ([], Some (wrapError ''parseTraining: ''
            (wrapError ''failed to extract steps: '' (NumError ''Atoi'' ''x'' ErrSyntax))))
   \<and> snd (TrainingInfo run_record 0 1.8) \<noteq> None
   \<and> TrainingInfo run_record 0 1.8
       = ([], Some (wrapError ''RunningSpentCalories: '' (errorString ''weight is not positive'')))
   \<and> snd (TrainingInfo walk_record 75 0) \<noteq> None
   \<and> TrainingInfo walk_record 75 0
       = ([], Some (wrapError ''WalkingSpentCalories: '' (errorString ''height is not positive'')))"
proof -
  have n1: "snd (TrainingInfo swim_record 75 1.8) \<noteq> None"
    using parseTraining_swim Plavanie_neq by (simp add: TrainingInfo_unknown)
  have n2: "snd (TrainingInfo ''x,run,3h00m'' 75 1.8) \<noteq> None"
    using parseTraining_x by (simp add: TrainingInfo_parse_error)
  have r: "RunningSpentCalories 3456 0 height 10800000000000
      = (0, Some (errorString ''weight is not positive''))" for height
    by (simp add: RunningSpentCalories_def)
  have w: "WalkingSpentCalories 3456 75 0 10800000000000
      = (0, Some (errorString ''height is not positive''))"
    by (simp add: WalkingSpentCalories_def)
  have n3: "snd (TrainingInfo run_record 0 1.8) \<noteq> None"
    unfolding TrainingInfo_running [OF parseTraining_run] r by simp
  have n4: "snd (TrainingInfo walk_record 75 0) \<noteq> None"
    unfolding TrainingInfo_walking [OF parseTraining_walk] w by simp
  have "TrainingInfo swim_record 75 1.8
      = ([], Some (errorString unknown_training_type))"
    using TrainingInfo_failure [OF n1] parseTraining_swim Plavanie_neq
    by (simp add: prod_eq_iff)
  moreover have "TrainingInfo ''x,run,3h00m'' 75 1.8
      = ([], Some (wrapError ''parseTraining: ''
           (wrapError ''failed to extract steps: '' (NumError ''Atoi'' ''x'' ErrSyntax))))"
    using TrainingInfo_failure [OF n2] parseTraining_x
    by (simp add: prod_eq_iff)
  moreover have "TrainingInfo run_record 0 1.8
      = ([], Some (wrapError ''RunningSpentCalories: '' (errorString ''weight is not positive'')))"
    using TrainingInfo_failure [OF n3] parseTraining_run
    by (simp add: prod_eq_iff r)
  moreover have "TrainingInfo walk_record 75 0
      = ([], Some (wrapError ''WalkingSpentCalories: '' (errorString ''height is not positive'')))"
    using TrainingInfo_failure [OF n4] Beg_neq_Khodba parseTraining_walk
    by (simp add: prod_eq_iff w)
  ultimately show ?thesis
    using n1 n2 n3 n4 by simp
qed

theorem DayActionInfo_failure_witness:
  "parsePackage ''678'' = (0, 0, Some (errorString ''bad data format''))
   \<and> DayActionInfo ''678'' 75 1.75 []
       = ([], [Printf ''parsePackage: %v'' (errorString ''bad data format'')])
   \<and> parsePackage ''678,0h50m'' = (678, 3000000000000, None)
   \<and> WalkingSpentCalories 678 0 1.75 3000000000000
       = (0, Some (errorString ''weight is not positive''))
   \<and> DayActionInfo ''678,0h50m'' 0 1.75 []
       = ([], [Printf ''WalkingSpentCalories: %v'' (errorString ''weight is not positive'')])"
proof -
  have w: "WalkingSpentCalories 678 0 1.75 3000000000000
      = (0, Some (errorString ''weight is not positive''))"
    by (simp add: WalkingSpentCalories_def)
  have "DayActionInfo ''678'' 75 1.75 []
      = ([], [Printf ''parsePackage: %v'' (errorString ''bad data format'')])"
    using DayActionInfo_failure [of "''678''" 0 0 "errorString ''bad data format''" 75 "1.75" "[]"]
    unfolding parsePackage_one_field
    by simp
  moreover have "DayActionInfo ''678,0h50m'' 0 1.75 []
      = ([], [Printf ''WalkingSpentCalories: %v'' (errorString ''weight is not positive'')])"
    using DayActionInfo_failure [of "''678,0h50m''" 678 3000000000000
        "errorString ''weight is not positive''" 0 "1.75" "[]" 0]
    unfolding parsePackage_678 w
    by simp
  ultimately show ?thesis
    using parsePackage_one_field parsePackage_678 w by simp
qed

lemma fmt_f2_065: "fmt_f2 0.65 = ''0.65''"
  by code_simp

lemma fmt_f2_07875: "fmt_f2 0.7875 = ''0.79''"
  by code_simp

lemma Walking_1000: "WalkingSpentCalories 1000 70 1.75 3600000000000 = (27.5625, None)"
  by (simp add: WalkingSpentCalories_def meanSpeed_def distance_eq Hours_eq Minutes_eq
      minInH_def walkingCaloriesCoefficient_def)

lemma DayActionInfo_1000:
  "DayActionInfo ''1000,1h'' 70 1.75 [] = (DayActionInfo_Sprintf 1000 0.65 27.5625, [])"
  unfolding DayActionInfo_parsed [OF parsePackage_1000] Walking_1000
  by simp

text \<open>
  C1 as stated fails: for \<^verbatim>\<open>"1000,1h"\<close>, 70 kg and 1.75 m the call succeeds and reports
  the distance 0.65 km, while the distance formula gives \<open>1000 * (1.75 * 0.45) / 1000 =
  0.7875\<close> km, which would print as 0.79.
\<close>

theorem DayActionInfo_distance_counterexample:
  "fst (DayActionInfo ''1000,1h'' 70 1.75 []) = DayActionInfo_Sprintf 1000 0.65 27.5625
   \<and> fst (DayActionInfo ''1000,1h'' 70 1.75 []) \<noteq> []
   \<and> distance 1000 1.75 = 0.7875
   \<and> fmt_f2 0.65 = ''0.65''
   \<and> fmt_f2 (distance 1000 1.75) = ''0.79''
   \<and> fst (DayActionInfo ''1000,1h'' 70 1.75 [])
       \<noteq> DayActionInfo_Sprintf 1000 (distance 1000 1.75) 27.5625"
proof -
  have d: "distance 1000 1.75 = 0.7875"
    by (simp add: distance_eq)
  have "DayActionInfo_Sprintf 1000 0.65 27.5625 \<noteq> DayActionInfo_Sprintf 1000 0.7875 27.5625"
    unfolding DayActionInfo_Sprintf_def fmt_f2_065 fmt_f2_07875 by simp
  then show ?thesis
    unfolding DayActionInfo_1000 d fmt_f2_065 fmt_f2_07875 fst_conv
    using DayActionInfo_Sprintf_nonempty by simp
qed

theorem DayActionInfo_distance_witness:
  "fst (DayActionInfo ''1000,1h'' 70 1.75 []) \<noteq> []
   \<and> parsePackage ''1000,1h'' = (1000, 3600000000000, None)
   \<and> WalkingSpentCalories 1000 70 1.75 3600000000000 = (27.5625, None)
   \<and> fst (DayActionInfo ''1000,1h'' 70 1.75 []) = DayActionInfo_Sprintf 1000 0.65 27.5625"
proof -
  have n: "fst (DayActionInfo ''1000,1h'' 70 1.75 []) \<noteq> []"
    unfolding DayActionInfo_1000 fst_conv by (rule DayActionInfo_Sprintf_nonempty)
  show ?thesis
    using DayActionInfo_distance [OF n] n unfolding parsePackage_1000 fst_conv snd_conv Walking_1000
    by simp
qed

text \<open>
  C2 fails on the code for a negative height and the running label:
  \<open>RunningSpentCalories\<close> does not check the height, which \<open>WalkingSpentCalories\<close> does.
  For \<^verbatim>\<open>"100,<running>,1h"\<close>, 70 kg and a height of -1.8 m, \<open>TrainingInfo\<close> returns no error
  and a report with the distance -0.081 km, the mean speed -0.081 km/h and -5.67 kcal.
\<close>

theorem TrainingInfo_negative_height:
  "TrainingInfo short_run_record 70 (- 1.8)
     = (TrainingInfo_Sprintf Beg 1 (- 0.081) (- 0.081) (- 5.67), None)
   \<and> distance 100 (- 1.8) = - 0.081
   \<and> meanSpeed 100 (- 1.8) 3600000000000 = - 0.081
   \<and> RunningSpentCalories 100 70 (- 1.8) 3600000000000 = (- 5.67, None)
   \<and> fmt_f2 (- 0.081) = ''-0.08''
   \<and> fmt_f2 (- 5.67) = ''-5.67''"
proof -
  have p: "parseTraining short_run_record = (100, Beg, 3600000000000, None)"
    by code_simp
  have d: "distance 100 (- 1.8) = - 0.081"
    by (simp add: distance_eq)
  have m: "meanSpeed 100 (- 1.8) 3600000000000 = - 0.081"
    by (simp add: meanSpeed_def distance_eq Hours_eq)
  have r: "RunningSpentCalories 100 70 (- 1.8) 3600000000000 = (- 5.67, None)"
    by (simp add: RunningSpentCalories_def meanSpeed_def distance_eq Hours_eq Minutes_eq
        minInH_def)
  have h: "Hours 3600000000000 = 1"
    by (simp add: Hours_eq)
  have f1: "fmt_f2 (- 0.081) = ''-0.08''"
    by code_simp
  have f2: "fmt_f2 (- 5.67) = ''-5.67''"
    by code_simp
  have "TrainingInfo short_run_record 70 (- 1.8)
      = (TrainingInfo_Sprintf Beg 1 (- 0.081) (- 0.081) (- 5.67), None)"
    unfolding TrainingInfo_running [OF p] r d m h
    by simp
  then show ?thesis
    using d m r f1 f2 by simp
qed

end
